theory Spec2Isabelle
  imports Main "HOL-Library.Multiset" "HOL-Library.Word"
begin

section \<open>Python values used by the proxies\<close>

text \<open>
  The proxies are Python classes whose handlers either return the acknowledgement
  string or raise. A raise is a value of \<open>error\<close>; a handler result is
  \<open>error + string\<close> with \<open>Inl\<close> the raised exception.
\<close>

datatype assert_msg =
    Msg string
  | CountMismatch "string list" "string list"
  | SequenceMismatch "string list" "string list"

datatype error =
    AssertionError assert_msg
  | ValueError string
  | KeyError string
  | Exception string
  | RemoteError string

text \<open>
  \<open>CountMismatch\<close> and \<open>SequenceMismatch\<close> stand for the messages that
  \<open>unittest.TestCase.assertCountEqual\<close> and \<open>assertEqual\<close> build from their two
  operands; \<open>RemoteError\<close> is an exception raised inside a remote call (a subclass of
  Python's \<open>Exception\<close>).
\<close>

subsection \<open>\<open>str.split(", ")\<close>\<close>

fun split_aux :: "string \<Rightarrow> string \<Rightarrow> string list" where
  "split_aux acc [] = [rev acc]"
| "split_aux acc [c] = [rev (c # acc)]"
| "split_aux acc (c # d # rest) =
     (if c = CHR '','' \<and> d = CHR '' '' then rev acc # split_aux [] rest
      else split_aux (c # acc) (d # rest))"

definition split_comma_space :: "string \<Rightarrow> string list" where
  "split_comma_space s = split_aux [] s"

subsection \<open>\<open>int(text)\<close> and \<open>int(text, 16)\<close>\<close>

text \<open>
  Python's conversion of ASCII text to an integer in base 10 or 16: white space around
  the number is skipped, a sign may come first, base 16 accepts the prefix \<open>0x\<close> or
  \<open>0X\<close> (with one underscore after it), and digits may be separated by single
  underscores. In base 10 a text of more than 4300 digits is refused, the interpreter's
  default limit; base 16 has no limit. \<open>None\<close> is the \<open>ValueError\<close> of the
  source.
\<close>

definition Py_ISSPACE :: "char \<Rightarrow> bool" where
  "Py_ISSPACE c = (c \<in> set [CHR 0x09, CHR 0x0A, CHR 0x0B, CHR 0x0C, CHR 0x0D, CHR '' ''])"

definition digit_value :: "char \<Rightarrow> nat option" where
  "digit_value c =
     (let n = (of_char c :: nat) in
      if 48 \<le> n \<and> n \<le> 57 then Some (n - 48)
      else if 97 \<le> n \<and> n \<le> 122 then Some (n - 87)
      else if 65 \<le> n \<and> n \<le> 90 then Some (n - 55)
      else None)"

definition is_digit_of :: "nat \<Rightarrow> char \<Rightarrow> bool" where
  "is_digit_of base c = (case digit_value c of Some d \<Rightarrow> d < base | None \<Rightarrow> False)"

fun scan_digits :: "nat \<Rightarrow> bool \<Rightarrow> int \<Rightarrow> string \<Rightarrow> (int \<times> string) option" where
  "scan_digits base prev acc [] = (if prev then None else Some (acc, []))"
| "scan_digits base prev acc (c # cs) =
     (if c = CHR ''_'' then (if prev then None else scan_digits base True acc cs)
      else if is_digit_of base c
        then scan_digits base False (acc * int base + int (the (digit_value c))) cs
      else if prev then None else Some (acc, c # cs))"

definition skip_sign :: "string \<Rightarrow> int \<times> string" where
  "skip_sign s =
     (case s of
        [] \<Rightarrow> (1, s)
      | c # cs \<Rightarrow> if c = CHR ''+'' then (1, cs) else if c = CHR ''-'' then (- 1, cs) else (1, s))"

definition skip_prefix :: "nat \<Rightarrow> string \<Rightarrow> string" where
  "skip_prefix base s =
     (case s of
        c # d # cs \<Rightarrow>
          if base = 16 \<and> c = CHR ''0'' \<and> (d = CHR ''x'' \<or> d = CHR ''X'')
          then (case cs of u # us \<Rightarrow> if u = CHR ''_'' then us else cs | [] \<Rightarrow> cs)
          else s
      | _ \<Rightarrow> s)"

definition max_str_digits :: nat where
  "max_str_digits = 4300"

text \<open>The number of digits read when the scan of \<open>s\<close> stopped with \<open>rest\<close> left.\<close>

definition digit_count :: "string \<Rightarrow> string \<Rightarrow> nat" where
  "digit_count s rest = length (filter (\<lambda>c. c \<noteq> CHR ''_'') (take (length s - length rest) s))"

definition py_int :: "nat \<Rightarrow> string \<Rightarrow> int option" where
  "py_int base s =
     (let (sign, s2) = skip_sign (dropWhile Py_ISSPACE s);
          s3 = skip_prefix base s2
      in case s3 of
           [] \<Rightarrow> None
         | c # _ \<Rightarrow>
             if is_digit_of base c then
               (case scan_digits base False 0 s3 of
                  None \<Rightarrow> None
                | Some (v, rest) \<Rightarrow>
                    if base = 10 \<and> max_str_digits < digit_count s3 rest then None
                    else if dropWhile Py_ISSPACE rest = [] then Some (sign * v)
                    else None)
             else None)"

subsection \<open>\<open>unittest.TestCase\<close> assertions\<close>

text \<open>
  \<open>assertCountEqual\<close> compares \<open>Counter(first)\<close> with \<open>Counter(second)\<close>: two
  counters are equal when every element of either list occurs equally often in both.
\<close>

definition assertCountEqual :: "string list \<Rightarrow> string list \<Rightarrow> error + unit" where
  "assertCountEqual first second =
     (if list_all (\<lambda>x. count_list first x = count_list second x) (first @ second)
      then Inr ()
      else Inl (AssertionError (CountMismatch first second)))"

definition assertEqual :: "string list \<Rightarrow> string list \<Rightarrow> error + unit" where
  "assertEqual first second =
     (if first = second then Inr () else Inl (AssertionError (SequenceMismatch first second)))"

section \<open>SDP proxy\<close>

definition UUID_TO_SERVICE_NAME :: "int \<rightharpoonup> string" where
  "UUID_TO_SERVICE_NAME = map_of
     [(0x1105, ''OBEXObjectPush''),
      (0x110A, ''AudioSource''),
      (0x110C, ''A/V_RemoteControlTarget''),
      (0x110E, ''A/V_RemoteControl''),
      (0x110F, ''A/V_RemoteControlController''),
      (0x1112, ''Headset - Audio Gateway''),
      (0x1115, ''PANU''),
      (0x1116, ''NAP''),
      (0x111F, ''HandsfreeAudioGateway''),
      (0x112F, ''Phonebook Access - PSE''),
      (0x1132, ''Message Access Server''),
      (0x1203, ''GenericAudio''),
      (0x1800, ''Generic Access''),
      (0x1801, ''Generic Attribute service''),
      (0x1855, ''TMAS''),
      (0xc26cf57233694cf2b5ccd2cd130f5b2c, ''Android Auto Compatibility'')]"

definition expected_services :: "string list" where
  "expected_services =
     [''Generic Attribute service'',
      ''Generic Access'',
      ''AudioSource'',
      ''A/V_RemoteControlTarget'',
      ''A/V_RemoteControl'',
      ''A/V_RemoteControlController'',
      ''Headset - Audio Gateway'',
      ''GenericAudio'',
      ''HandsfreeAudioGateway'',
      ''GenericAudio'',
      ''Message Access Server'',
      ''NAP'',
      ''PANU'',
      ''TMAS'',
      ''Phonebook Access - PSE'',
      ''OBEXObjectPush'',
      ''Android Auto Compatibility'']"

definition optional_services :: "string list" where
  "optional_services =
     [''Generic Attribute service'',
      ''A/V_RemoteControlController'',
      ''Android Auto Compatibility'',
      ''TMAS'']"

definition movable_services :: "string list" where
  "movable_services = [''Message Access Server'', ''TMAS'']"

text \<open>Lines 131-132: the prompt's list, each UUID replaced by its service name.\<close>

definition translate_uuid :: "string \<Rightarrow> error + string" where
  "translate_uuid uuid =
     (case py_int 16 uuid of
        None \<Rightarrow> Inl (ValueError uuid)
      | Some k \<Rightarrow> Inr (case UUID_TO_SERVICE_NAME k of Some name \<Rightarrow> name | None \<Rightarrow> uuid))"

fun map_raising :: "('a \<Rightarrow> error + 'b) \<Rightarrow> 'a list \<Rightarrow> error + 'b list" where
  "map_raising f [] = Inr []"
| "map_raising f (x # xs) =
     (case f x of
        Inl e \<Rightarrow> Inl e
      | Inr y \<Rightarrow> (case map_raising f xs of Inl e \<Rightarrow> Inl e | Inr ys \<Rightarrow> Inr (y # ys)))"

definition reported_services :: "string \<Rightarrow> error + string list" where
  "reported_services uuids = map_raising translate_uuid (split_comma_space uuids)"

text \<open>Lines 169-171: optional services that were not reported are dropped.\<close>

definition optional_not_present :: "string list \<Rightarrow> string \<Rightarrow> bool" where
  "optional_not_present reported service =
     (service \<in> set optional_services \<and> service \<notin> set reported)"

definition expected_present :: "string list \<Rightarrow> string list" where
  "expected_present reported = filter (\<lambda>s. \<not> optional_not_present reported s) expected_services"

definition movable_present :: "string list \<Rightarrow> string list" where
  "movable_present reported = filter (\<lambda>s. \<not> optional_not_present reported s) movable_services"

definition TSC_SDP_mmi_verify_browsable_services :: "string \<Rightarrow> error + string" where
  "TSC_SDP_mmi_verify_browsable_services uuids =
     (case reported_services uuids of
        Inl e \<Rightarrow> Inl e
      | Inr reported \<Rightarrow>
          let expected = expected_present reported;
              movable = movable_present reported;
              movable_services_names_without_optional = filter (\<lambda>x. x \<in> set movable) reported
          in case assertCountEqual movable_services_names_without_optional movable of
               Inl e \<Rightarrow> Inl e
             | Inr _ \<Rightarrow>
                 let reported' = filter (\<lambda>key. key \<notin> set movable) reported;
                     expected_services_without_movable = filter (\<lambda>key. key \<notin> set movable) expected
                 in (case assertEqual reported' expected_services_without_movable of
                       Inl e \<Rightarrow> Inl e
                     | Inr _ \<Rightarrow> Inr ''OK''))"


definition uuids_without_TMAS :: string where
  "uuids_without_TMAS = ''0x1801, 0x1800, 0x110A, 0x110C, 0x110E, 0x110F, 0x1112, 0x1203, 0x111F, 0x1203, 0x1132, 0x1116, 0x1115, 0x112F, 0x1105, 0xC26CF57233694CF2B5CCD2CD130F5B2C''"

definition uuids_TMAS_first :: string where
  "uuids_TMAS_first = ''0x1855, 0x1801, 0x1800, 0x110A, 0x110C, 0x110E, 0x110F, 0x1112, 0x1203, 0x111F, 0x1203, 0x1132, 0x1116, 0x1115, 0x112F, 0x1105, 0xC26CF57233694CF2B5CCD2CD130F5B2C''"

subsection \<open>The comparison in the words of the specification\<close>

text \<open>
  The reference sequence with TMAS taken out, the translation of a prompt all of whose
  UUIDs are numbers, and the two ways in which the comparison fails.
\<close>

definition expected_without_TMAS :: "string list" where
  "expected_without_TMAS = removeAll ''TMAS'' expected_services"

definition spec_translate :: "string \<Rightarrow> string list" where
  "spec_translate uuids =
     map (\<lambda>uuid. case UUID_TO_SERVICE_NAME (the (py_int 16 uuid)) of
                    Some name \<Rightarrow> name | None \<Rightarrow> uuid)
         (split_comma_space uuids)"

definition movable_differ :: "string list \<Rightarrow> bool" where
  "movable_differ reported =
     (mset (filter (\<lambda>x. x \<in> set (movable_present reported)) reported)
        \<noteq> mset (movable_present reported))"

definition fixed_order_differ :: "string list \<Rightarrow> bool" where
  "fixed_order_differ reported =
     (filter (\<lambda>x. x \<notin> set (movable_present reported)) reported
        \<noteq> filter (\<lambda>x. x \<notin> set (movable_present reported)) (expected_present reported))"


text \<open>
  The failure condition stated from the reference lists alone. The optional services
  that are not reported are removed from the reference sequence and from the movable
  services; a service is movable when it is one of \<open>movable_services\<close>.
\<close>

definition absent_optional :: "string list \<Rightarrow> string list" where
  "absent_optional reported = filter (\<lambda>s. s \<notin> set reported) optional_services"

definition spec_expected :: "string list \<Rightarrow> string list" where
  "spec_expected reported = fold removeAll (absent_optional reported) expected_services"

definition spec_movable :: "string list \<Rightarrow> string list" where
  "spec_movable reported = fold removeAll (absent_optional reported) movable_services"

definition spec_movable_differ :: "string list \<Rightarrow> bool" where
  "spec_movable_differ reported =
     (mset (filter (\<lambda>x. x \<in> set movable_services) reported) \<noteq> mset (spec_movable reported))"

definition spec_fixed_order_differ :: "string list \<Rightarrow> bool" where
  "spec_fixed_order_differ reported =
     (filter (\<lambda>x. x \<notin> set movable_services) reported
        \<noteq> filter (\<lambda>x. x \<notin> set movable_services) (spec_expected reported))"

definition is_count_mismatch :: "error + string \<Rightarrow> bool" where
  "is_count_mismatch r =
     (case r of Inl (AssertionError (CountMismatch first second)) \<Rightarrow> True | _ \<Rightarrow> False)"

definition is_sequence_mismatch :: "error + string \<Rightarrow> bool" where
  "is_sequence_mismatch r =
     (case r of Inl (AssertionError (SequenceMismatch first second)) \<Rightarrow> True | _ \<Rightarrow> False)"

text \<open>
  Two failing prompts: one without the Message Access Server, one with the first two
  services in the wrong order.
\<close>

definition uuids_no_MAS :: string where
  "uuids_no_MAS = ''0x1800, 0x110A''"

definition uuids_swapped :: string where
  "uuids_swapped = ''0x1800, 0x1801, 0x110A, 0x110C, 0x110E, 0x110F, 0x1112, 0x1203, 0x111F, 0x1203, 0x1132, 0x1116, 0x1115, 0x112F, 0x1105, 0xC26CF57233694CF2B5CCD2CD130F5B2C''"

section \<open>SM proxy: the pairing responder\<close>

text \<open>
  Modelled from the spec: the pairing event message of the remote security service, whose
  declaration is not among the sources. An event carries a variant (just-works,
  numeric-comparison or passkey-entry-request); the record holds the outcome of the three
  field tests the responder makes on it (\<open>event.just_works\<close>,
  \<open>event.numeric_comparison\<close>, \<open>event.passkey_entry_request\<close>), and \<open>event_id\<close>
  tells events apart.
\<close>

record pairing_event =
  event_id :: nat
  just_works :: bool
  numeric_comparison :: bool
  passkey_entry_request :: bool

text \<open>
  Modelled from the spec: the events the remote stack delivers, by variant. The fields
  \<open>just_works\<close> and \<open>passkey_entry_request\<close> hold messages, and reading such a
  field gives a message object, which a test counts as true whether or not the variant
  is the one set; that is why the sources ask \<open>HasField\<close> where presence matters
  (\<open>l2cap.py\<close>, line 97). The field \<open>numeric_comparison\<close> holds the number to
  compare (\<open>l2cap.py\<close>, lines 458-460), zero when another variant is set, and a test
  counts it as true when it is not zero.
\<close>

datatype pairing_method = Just_works | Numeric_comparison nat | Passkey_entry_request

definition received_event :: "nat \<Rightarrow> pairing_method \<Rightarrow> pairing_event" where
  "received_event n method =
     \<lparr>event_id = n,
      just_works = True,
      numeric_comparison = (case method of Numeric_comparison number \<Rightarrow> number \<noteq> 0 | _ \<Rightarrow> False),
      passkey_entry_request = True\<rparr>"

datatype pairing_event_answer =
    Answer_confirm pairing_event bool
  | Answer_passkey pairing_event int

text \<open>
  The responder's view of the proxy: the passkey queue (oldest value first), the answers
  sent on the pairing stream so far, and the lines written by \<open>debug\<close>.
\<close>

record sm_proxy =
  passkey_queue :: "string list"
  answers :: "pairing_event_answer list"
  debug_out :: "string list"

definition MMI_DISPLAY_PASSKEY_CODE :: "string \<Rightarrow> sm_proxy \<Rightarrow> string \<times> sm_proxy" where
  "MMI_DISPLAY_PASSKEY_CODE passkey self =
     (''OK'', self\<lparr>passkey_queue := passkey_queue self @ [passkey]\<rparr>)"

text \<open>
  \<open>Queue.get(timeout=15)\<close>: the oldest queued value is taken at once; on an empty queue
  the call waits, and \<open>arrival\<close> is the value the prompt handler puts within the 15
  seconds, if any. \<open>None\<close> is the exception \<open>Empty\<close>.
\<close>

definition queue_get :: "string list \<Rightarrow> string option \<Rightarrow> (string \<times> string list) option" where
  "queue_get queue arrival =
     (case queue of
        passkey # rest \<Rightarrow> Some (passkey, rest)
      | [] \<Rightarrow> (case arrival of Some passkey \<Rightarrow> Some (passkey, []) | None \<Rightarrow> None))"

text \<open>The body of the loop in \<open>_handle_pairing_requests\<close>, for one event.\<close>

definition handle_pairing_event ::
    "sm_proxy \<Rightarrow> pairing_event \<times> string option \<Rightarrow> error + sm_proxy" where
  "handle_pairing_event self ev =
     (let event = fst ev; arrival = snd ev;
          self1 = (if just_works event \<or> numeric_comparison event
                   then self\<lparr>answers := answers self @ [Answer_confirm event True]\<rparr>
                   else self)
      in if passkey_entry_request event then
           (case queue_get (passkey_queue self1) arrival of
              None \<Rightarrow>
                Inr (self1\<lparr>debug_out := debug_out self1 @ [''No passkey provided within 15 seconds'']\<rparr>)
            | Some (passkey, rest) \<Rightarrow>
                (case py_int 10 passkey of
                   None \<Rightarrow> Inl (ValueError passkey)
                 | Some n \<Rightarrow>
                     Inr (self1\<lparr>passkey_queue := rest,
                               answers := answers self1 @ [Answer_passkey event n]\<rparr>)))
         else Inr self1)"

text \<open>The loop over the events received so far; an exception ends the task.\<close>

fun task :: "sm_proxy \<Rightarrow> (pairing_event \<times> string option) list \<Rightarrow> error + sm_proxy" where
  "task self [] = Inr self"
| "task self (ev # evs) =
     (case handle_pairing_event self ev of
        Inl e \<Rightarrow> Inl e
      | Inr self' \<Rightarrow> task self' evs)"




definition sm_initial :: sm_proxy where
  "sm_initial = \<lparr>passkey_queue = [], answers = [], debug_out = []\<rparr>"

section \<open>L2CAP proxy\<close>

text \<open>
  Modelled from the spec: the connection handle and the open data channel handle of the
  remote stack, whose declarations are not among the sources; a handle is a number and a
  handle that is set counts as true. The proxy keeps the
  connection, the channel and the per-test status map; \<open>remote_calls\<close> lists the remote
  operations performed so far and \<open>stderr\<close> the lines printed to the error stream.
\<close>

type_synonym connection = nat
type_synonym channel = nat

datatype remote_call =
    Advertise_next
  | L2CAP_Connect connection nat
  | L2CAP_Send channel "8 word list"

record l2cap_proxy =
  connection :: "connection option"
  channel :: "channel option"
  test_status_map :: "string \<rightharpoonup> string"
  remote_calls :: "remote_call list"
  stderr :: "string list"

definition LE_DATA_PACKET_LARGE :: string where
  "LE_DATA_PACKET_LARGE = ''data: LE_DATA_PACKET_LARGE''"

definition LE_DATA_PACKET1 :: string where
  "LE_DATA_PACKET1 = ''data: LE_PACKET1''"

subsection \<open>Text and bytes\<close>

text \<open>
  \<open>str.encode("utf-8")\<close> on ASCII text gives one byte per character; \<open>bytes.hex()\<close>
  writes each byte as two lower-case hexadecimal digits; \<open>str.upper()\<close> raises the
  letters a to z.
\<close>

definition encode_utf8 :: "string \<Rightarrow> 8 word list" where
  "encode_utf8 s = map (\<lambda>c. of_nat (of_char c)) s"

definition hex_digit :: "nat \<Rightarrow> char" where
  "hex_digit n = ''0123456789abcdef'' ! n"

definition bytes_hex :: "8 word list \<Rightarrow> string" where
  "bytes_hex bs = concat (map (\<lambda>b. [hex_digit (unat b div 16), hex_digit (unat b mod 16)]) bs)"

definition upper_char :: "char \<Rightarrow> char" where
  "upper_char c =
     (let n = (of_char c :: nat) in if 97 \<le> n \<and> n \<le> 122 then char_of (n - 32) else c)"

definition upper :: "string \<Rightarrow> string" where
  "upper s = map upper_char s"

text \<open>The text \<open>str(e)\<close> of an exception, as the failure line prints it.\<close>

fun str_of_error :: "error \<Rightarrow> string" where
  "str_of_error (Exception m) = m"
| "str_of_error (RemoteError m) = m"
| "str_of_error (ValueError m) = m"
| "str_of_error (KeyError k) = [CHR 0x27] @ k @ [CHR 0x27]"
| "str_of_error (AssertionError (Msg m)) = m"
| "str_of_error (AssertionError _) = []"

subsection \<open>The connection request\<close>

definition tests_target_to_fail :: "string list" where
  "tests_target_to_fail =
     [''L2CAP/LE/CFC/BV-01-C'',
      ''L2CAP/LE/CFC/BV-04-C'',
      ''L2CAP/LE/CFC/BV-14-C'',
      ''L2CAP/LE/CFC/BV-16-C'',
      ''L2CAP/LE/CFC/BV-18-C'',
      ''L2CAP/LE/CFC/BV-19-C'',
      ''L2CAP/LE/CFC/BV-21-C'']"

text \<open>
  The remote stack's part is given to the handler as two outcomes: \<open>advertised\<close> is what
  \<open>next(self.advertise).connection\<close> yields or raises, and \<open>connect_result\<close> is what
  \<open>self.l2cap.Connect\<close> returns or raises; a returned response holds either a channel
  or an error.
\<close>

datatype connect_response = Response_channel channel | Response_error string

definition spsm_of_test :: "string \<Rightarrow> nat" where
  "spsm_of_test test =
     (let psm = 0x25;
          psm = (if test = ''L2CAP/LE/CFC/BV-04-C'' then 0xF1 else psm);
          psm = (if test = ''L2CAP/LE/CFC/BV-10-C'' then 0xF2 else psm);
          psm = (if test = ''L2CAP/LE/CFC/BV-12-C'' then 0xF3 else psm)
      in psm)"

definition MMI_IUT_SEND_LE_CREDIT_BASED_CONNECTION_REQUEST ::
    "string \<Rightarrow> error + connection \<Rightarrow> error + connect_response \<Rightarrow> l2cap_proxy
      \<Rightarrow> (error + string) \<times> l2cap_proxy" where
  "MMI_IUT_SEND_LE_CREDIT_BASED_CONNECTION_REQUEST test advertised connect_result self =
     (if connection self \<noteq> None \<and> test = ''L2CAP/LE/CFC/BV-02-C'' then (Inr ''OK'', self)
      else if connection self \<noteq> None
        then (Inl (AssertionError (Msg ''the connection should be None for the first call'')), self)
      else
        let self1 = self\<lparr>remote_calls := remote_calls self @ [Advertise_next]\<rparr> in
        case advertised of
          Inl e \<Rightarrow> (Inl e, self1)
        | Inr conn \<Rightarrow>
            let self2 = self1\<lparr>connection := Some conn\<rparr>;
                psm = spsm_of_test test;
                self3 = self2\<lparr>remote_calls := remote_calls self2 @ [L2CAP_Connect conn psm]\<rparr>;
                attempt = (case connect_result of
                             Inl e \<Rightarrow> Inl e
                           | Inr (Response_channel ch) \<Rightarrow> Inr ch
                           | Inr (Response_error err) \<Rightarrow> Inl (Exception err))
            in case attempt of
                 Inr ch \<Rightarrow> (Inr ''OK'', self3\<lparr>channel := Some ch\<rparr>)
               | Inl e \<Rightarrow>
                   if test \<in> set tests_target_to_fail
                   then (Inr ''OK'',
                         self3\<lparr>test_status_map := (test_status_map self3)(test \<mapsto> ''OK''),
                               stderr := stderr self3 @ [test @ '' target to fail'']\<rparr>)
                   else (Inl e,
                         self3\<lparr>stderr := stderr self3 @
                            [test @ '' CreateLECreditBasedChannel failed '' @ str_of_error e]\<rparr>))"

subsection \<open>Sending and confirming data\<close>

text \<open>\<open>send_result\<close> is the exception the remote \<open>Send\<close> raises, if it raises.\<close>

definition MMI_UPPER_TESTER_SEND_LE_DATA_PACKET_LARGE ::
    "error option \<Rightarrow> l2cap_proxy \<Rightarrow> (error + string) \<times> l2cap_proxy" where
  "MMI_UPPER_TESTER_SEND_LE_DATA_PACKET_LARGE send_result self =
     (case channel self of
        None \<Rightarrow> (Inl (AssertionError (Msg [])), self)
      | Some ch \<Rightarrow>
          let self1 = self\<lparr>remote_calls := remote_calls self @
                         [L2CAP_Send ch (encode_utf8 LE_DATA_PACKET_LARGE)]\<rparr>
          in (case send_result of Some e \<Rightarrow> (Inl e, self1) | None \<Rightarrow> (Inr ''OK'', self1)))"

definition MMI_UPPER_TESTER_SEND_LE_DATA_PACKET1 ::
    "error option \<Rightarrow> l2cap_proxy \<Rightarrow> (error + string) \<times> l2cap_proxy" where
  "MMI_UPPER_TESTER_SEND_LE_DATA_PACKET1 send_result self =
     (case channel self of
        None \<Rightarrow> (Inl (AssertionError (Msg [])), self)
      | Some ch \<Rightarrow>
          let self1 = self\<lparr>remote_calls := remote_calls self @
                         [L2CAP_Send ch (encode_utf8 LE_DATA_PACKET1)]\<rparr>
          in (case send_result of Some e \<Rightarrow> (Inl e, self1) | None \<Rightarrow> (Inr ''OK'', self1)))"

definition MMI_UPPER_TESTER_CONFIRM_LE_DATA ::
    "string \<Rightarrow> string \<Rightarrow> l2cap_proxy \<Rightarrow> (error + string) \<times> l2cap_proxy" where
  "MMI_UPPER_TESTER_CONFIRM_LE_DATA sent_data test self =
     (let hex_LE_DATA_PACKET =
            (if test = ''L2CAP/COS/CFC/BV-02-C''
             then upper (bytes_hex (encode_utf8 LE_DATA_PACKET1))
             else upper (bytes_hex (encode_utf8 LE_DATA_PACKET_LARGE)))
      in if sent_data \<noteq> hex_LE_DATA_PACKET
         then (Inl (Exception (''data not match, sent_data:'' @ sent_data @ '' and '' @ hex_LE_DATA_PACKET)),
               self\<lparr>stderr := stderr self @
                  [''data not match, sent_data:'' @ sent_data @ '' and '' @ hex_LE_DATA_PACKET]\<rparr>)
         else (Inr ''OK'', self))"

text \<open>The payload of the last remote \<open>Send\<close> the proxy performed.\<close>

definition last_sent :: "l2cap_proxy \<Rightarrow> 8 word list option" where
  "last_sent self =
     (case rev (remote_calls self) of
        L2CAP_Send ch payload # _ \<Rightarrow> Some payload
      | _ \<Rightarrow> None)"

subsection \<open>Handlers that read the status map\<close>

definition MMI_UPPER_TESTER_CONFIRM_RECEIVE_COMMAND_NOT_UNDERSTAOOD :: "string \<Rightarrow> l2cap_proxy \<Rightarrow> (error + string) \<times> l2cap_proxy" where
  "MMI_UPPER_TESTER_CONFIRM_RECEIVE_COMMAND_NOT_UNDERSTAOOD test self =
     (case test_status_map self test of
        None \<Rightarrow> (Inl (KeyError test), self)
      | Some status \<Rightarrow>
          if status \<noteq> ''OK''
          then (Inl (Exception ''Unexpected RECEIVE_COMMAND''),
                self\<lparr>stderr := stderr self @ [''error in MI_UPPER_TESTER_CONFIRM_RECEIVE_COMMAND_NOT_UNDERSTAOOD'']\<rparr>)
          else (Inr ''OK'', self))"

definition MMI_UPPER_TESTER_CONFIRM_RECEIVE_REJECT_PSM :: "string \<Rightarrow> l2cap_proxy \<Rightarrow> (error + string) \<times> l2cap_proxy" where
  "MMI_UPPER_TESTER_CONFIRM_RECEIVE_REJECT_PSM test self =
     (case test_status_map self test of
        None \<Rightarrow> (Inl (KeyError test), self)
      | Some status \<Rightarrow>
          if status \<noteq> ''OK''
          then (Inl (Exception ''Unexpected RECEIVE_COMMAND''),
                self\<lparr>stderr := stderr self @ [''error in MMI_UPPER_TESTER_CONFIRM_RECEIVE_REJECT_PSM'']\<rparr>)
          else (Inr ''OK'', self))"

definition MMI_UPPER_TESTER_CONFIRM_RECEIVE_REJECT_AUTHENTICATION :: "string \<Rightarrow> l2cap_proxy \<Rightarrow> (error + string) \<times> l2cap_proxy" where
  "MMI_UPPER_TESTER_CONFIRM_RECEIVE_REJECT_AUTHENTICATION test self =
     (case test_status_map self test of
        None \<Rightarrow> (Inl (KeyError test), self)
      | Some status \<Rightarrow>
          if status \<noteq> ''OK''
          then (Inl (Exception ''Unexpected RECEIVE_COMMAND''),
                self\<lparr>stderr := stderr self @ [''error in MMI_UPPER_TESTER_CONFIRM_RECEIVE_REJECT_AUTHENTICATION'']\<rparr>)
          else (Inr ''OK'', self))"

definition MMI_IUT_SEND_INSUFFICIENT_AUTHENTICATION_ON_LE :: "string \<Rightarrow> l2cap_proxy \<Rightarrow> (error + string) \<times> l2cap_proxy" where
  "MMI_IUT_SEND_INSUFFICIENT_AUTHENTICATION_ON_LE test self =
     (case test_status_map self test of
        None \<Rightarrow> (Inl (KeyError test), self)
      | Some status \<Rightarrow>
          if status \<noteq> ''OK''
          then (Inl (Exception ''Unexpected RECEIVE_COMMAND''),
                self\<lparr>stderr := stderr self @ [''error in _mmi_135'']\<rparr>)
          else (Inr ''OK'', self))"

definition MMI_UPPER_TESTER_CONFIRM_RECEIVE_REJECT_AUTHORIZATION :: "string \<Rightarrow> l2cap_proxy \<Rightarrow> (error + string) \<times> l2cap_proxy" where
  "MMI_UPPER_TESTER_CONFIRM_RECEIVE_REJECT_AUTHORIZATION test self =
     (case test_status_map self test of
        None \<Rightarrow> (Inl (KeyError test), self)
      | Some status \<Rightarrow>
          if status \<noteq> ''OK''
          then (Inl (Exception ''Unexpected RECEIVE_COMMAND''),
                self\<lparr>stderr := stderr self @ [''error in MMI_UPPER_TESTER_CONFIRM_RECEIVE_REJECT_AUTHORIZATION'']\<rparr>)
          else (Inr ''OK'', self))"

definition MMI_UPPER_TESTER_CONFIRM_RECEIVE_REJECT_ENCRYPTION_KEY_SIZE :: "string \<Rightarrow> l2cap_proxy \<Rightarrow> (error + string) \<times> l2cap_proxy" where
  "MMI_UPPER_TESTER_CONFIRM_RECEIVE_REJECT_ENCRYPTION_KEY_SIZE test self =
     (case test_status_map self test of
        None \<Rightarrow> (Inl (KeyError test), self)
      | Some status \<Rightarrow>
          if status \<noteq> ''OK''
          then (Inl (Exception ''Unexpected RECEIVE_COMMAND''),
                self\<lparr>stderr := stderr self @ [''error in MMI_UPPER_TESTER_CONFIRM_RECEIVE_REJECT_ENCRYPTION_KEY_SIZE'']\<rparr>)
          else (Inr ''OK'', self))"

definition MMI_UPPER_TESTER_CONFIRM_RECEIVE_REJECT_INVALID_SOURCE_CID :: "string \<Rightarrow> l2cap_proxy \<Rightarrow> (error + string) \<times> l2cap_proxy" where
  "MMI_UPPER_TESTER_CONFIRM_RECEIVE_REJECT_INVALID_SOURCE_CID test self =
     (case test_status_map self test of
        None \<Rightarrow> (Inl (KeyError test), self)
      | Some status \<Rightarrow>
          if status \<noteq> ''OK''
          then (Inl (Exception ''Unexpected RECEIVE_COMMAND''),
                self\<lparr>stderr := stderr self @ [''error in MMI_UPPER_TESTER_CONFIRM_RECEIVE_REJECT_INVALID_SOURCE_CID'']\<rparr>)
          else (Inr ''OK'', self))"

definition MMI_UPPER_TESTER_CONFIRM_RECEIVE_REJECT_SOURCE_CID_ALREADY_ALLOCATED :: "string \<Rightarrow> l2cap_proxy \<Rightarrow> (error + string) \<times> l2cap_proxy" where
  "MMI_UPPER_TESTER_CONFIRM_RECEIVE_REJECT_SOURCE_CID_ALREADY_ALLOCATED test self =
     (case test_status_map self test of
        None \<Rightarrow> (Inl (KeyError test), self)
      | Some status \<Rightarrow>
          if status \<noteq> ''OK''
          then (Inl (Exception ''Unexpected RECEIVE_COMMAND''),
                self\<lparr>stderr := stderr self @ [''error in MMI_UPPER_TESTER_CONFIRM_RECEIVE_REJECT_SOURCE_CID_ALREADY_ALLOCATED'']\<rparr>)
          else (Inr ''OK'', self))"

definition MMI_UPPER_TESTER_CONFIRM_RECEIVE_REJECT_UNACCEPTABLE_PARAMETERS :: "string \<Rightarrow> l2cap_proxy \<Rightarrow> (error + string) \<times> l2cap_proxy" where
  "MMI_UPPER_TESTER_CONFIRM_RECEIVE_REJECT_UNACCEPTABLE_PARAMETERS test self =
     (case test_status_map self test of
        None \<Rightarrow> (Inl (KeyError test), self)
      | Some status \<Rightarrow>
          if status \<noteq> ''OK''
          then (Inl (Exception ''Unexpected RECEIVE_COMMAND''),
                self\<lparr>stderr := stderr self @ [''error in MMI_UPPER_TESTER_CONFIRM_RECEIVE_REJECT_UNACCEPTABLE_PARAMETERS'']\<rparr>)
          else (Inr ''OK'', self))"

definition MMI_UPPER_TESTER_CONFIRM_RECEIVE_REJECT_RESOURCES :: "string \<Rightarrow> l2cap_proxy \<Rightarrow> (error + string) \<times> l2cap_proxy" where
  "MMI_UPPER_TESTER_CONFIRM_RECEIVE_REJECT_RESOURCES test self =
     (case test_status_map self test of
        None \<Rightarrow> (Inl (KeyError test), self)
      | Some status \<Rightarrow>
          if status \<noteq> ''OK''
          then (Inl (Exception ''Unexpected RECEIVE_COMMAND''),
                self\<lparr>stderr := stderr self @ [''error in MMI_UPPER_TESTER_CONFIRM_RECEIVE_REJECT_RESOURCES'']\<rparr>)
          else (Inr ''OK'', self))"

definition mmi_135 :: "string \<Rightarrow> l2cap_proxy \<Rightarrow> (error + string) \<times> l2cap_proxy" where
  "mmi_135 test self = MMI_IUT_SEND_INSUFFICIENT_AUTHENTICATION_ON_LE test self"

definition status_map_handlers ::
    "(string \<Rightarrow> l2cap_proxy \<Rightarrow> (error + string) \<times> l2cap_proxy) list" where
  "status_map_handlers =
     [MMI_UPPER_TESTER_CONFIRM_RECEIVE_COMMAND_NOT_UNDERSTAOOD,
      MMI_UPPER_TESTER_CONFIRM_RECEIVE_REJECT_PSM,
      MMI_UPPER_TESTER_CONFIRM_RECEIVE_REJECT_AUTHENTICATION,
      MMI_IUT_SEND_INSUFFICIENT_AUTHENTICATION_ON_LE,
      MMI_UPPER_TESTER_CONFIRM_RECEIVE_REJECT_AUTHORIZATION,
      MMI_UPPER_TESTER_CONFIRM_RECEIVE_REJECT_ENCRYPTION_KEY_SIZE,
      MMI_UPPER_TESTER_CONFIRM_RECEIVE_REJECT_INVALID_SOURCE_CID,
      MMI_UPPER_TESTER_CONFIRM_RECEIVE_REJECT_SOURCE_CID_ALREADY_ALLOCATED,
      MMI_UPPER_TESTER_CONFIRM_RECEIVE_REJECT_UNACCEPTABLE_PARAMETERS,
      MMI_UPPER_TESTER_CONFIRM_RECEIVE_REJECT_RESOURCES,
      mmi_135]"

definition l2cap_initial :: l2cap_proxy where
  "l2cap_initial =
     \<lparr>connection = None, channel = None, test_status_map = Map.empty,
      remote_calls = [], stderr = []\<rparr>"

subsection \<open>The claims' vocabulary for the L2CAP handlers\<close>

text \<open>
  A failed \<open>Connect\<close>: the call raised, or its response holds no channel; the value is
  the exception the handler then deals with. \<open>sender_of_test\<close> is the send handler whose
  payload the confirming prompt of a test is compared with.
\<close>

definition connect_failure :: "error + connect_response \<Rightarrow> error option" where
  "connect_failure connect_result =
     (case connect_result of
        Inl e \<Rightarrow> Some e
      | Inr (Response_error err) \<Rightarrow> Some (Exception err)
      | Inr (Response_channel ch) \<Rightarrow> None)"

definition sender_of_test ::
    "string \<Rightarrow> error option \<Rightarrow> l2cap_proxy \<Rightarrow> (error + string) \<times> l2cap_proxy" where
  "sender_of_test test =
     (if test = ''L2CAP/COS/CFC/BV-02-C'' then MMI_UPPER_TESTER_SEND_LE_DATA_PACKET1
      else MMI_UPPER_TESTER_SEND_LE_DATA_PACKET_LARGE)"

definition with_channel :: l2cap_proxy where
  "with_channel = l2cap_initial\<lparr>connection := Some 1, channel := Some 5\<rparr>"

definition after_rejected_request :: l2cap_proxy where
  "after_rejected_request =
     snd (MMI_IUT_SEND_LE_CREDIT_BASED_CONNECTION_REQUEST ''L2CAP/LE/CFC/BV-04-C''
            (Inr 1) (Inr (Response_error ''2'')) l2cap_initial)"

subsection \<open>Running examples for the responder\<close>


definition two_passkeys :: sm_proxy where
  "two_passkeys =
     snd (MMI_DISPLAY_PASSKEY_CODE ''222222'' (snd (MMI_DISPLAY_PASSKEY_CODE ''111111'' sm_initial)))"

section \<open>Properties of the SDP service-list comparison\<close>

subsection \<open>The two assertions\<close>

lemma assertCountEqual_mset:
  "assertCountEqual first second = Inr () \<longleftrightarrow> mset first = mset second"
proof -
  have "list_all (\<lambda>x. count_list first x = count_list second x) (first @ second)
        \<longleftrightarrow> (\<forall>x. count (mset first) x = count (mset second) x)"
  proof
    assume a: "list_all (\<lambda>x. count_list first x = count_list second x) (first @ second)"
    show "\<forall>x. count (mset first) x = count (mset second) x"
    proof
      fix x
      show "count (mset first) x = count (mset second) x"
      proof (cases "x \<in> set (first @ second)")
        case True
        with a have "count_list first x = count_list second x"
          by (simp add: list_all_iff)
        then show ?thesis by (simp add: count_mset)
      next
        case False
        then have "x \<notin> set first" "x \<notin> set second" by simp_all
        then show ?thesis by (simp add: count_mset count_list_0_iff)
      qed
    qed
  next
    assume "\<forall>x. count (mset first) x = count (mset second) x"
    then show "list_all (\<lambda>x. count_list first x = count_list second x) (first @ second)"
      by (simp add: list_all_iff count_mset)
  qed
  then show ?thesis
    by (simp add: assertCountEqual_def multiset_eq_iff)
qed

lemma assertCountEqual_cases:
  "assertCountEqual first second =
     (if mset first = mset second then Inr ()
      else Inl (AssertionError (CountMismatch first second)))"
  using assertCountEqual_mset [of first second]
  by (auto simp: assertCountEqual_def)

lemma verify_cases:
  assumes "reported_services uuids = Inr reported"
  shows "TSC_SDP_mmi_verify_browsable_services uuids =
     (if movable_differ reported then
        Inl (AssertionError (CountMismatch
          (filter (\<lambda>x. x \<in> set (movable_present reported)) reported) (movable_present reported)))
      else if fixed_order_differ reported then
        Inl (AssertionError (SequenceMismatch
          (filter (\<lambda>x. x \<notin> set (movable_present reported)) reported)
          (filter (\<lambda>x. x \<notin> set (movable_present reported)) (expected_present reported))))
      else Inr ''OK'')"
  using assms
  by (simp add: TSC_SDP_mmi_verify_browsable_services_def assertCountEqual_cases
      assertEqual_def movable_differ_def fixed_order_differ_def Let_def)


subsection \<open>TMAS at any position\<close>

lemma set_take_drop: "set (take i xs) \<union> set (drop i xs) = set xs"
  by (metis append_take_drop_id set_append)

lemma filter_take_drop: "filter P (take i xs) @ filter P (drop i xs) = filter P xs"
  by (metis append_take_drop_id filter_append)

lemma set_insert_TMAS:
  "set expected_services
     \<subseteq> set (take i expected_without_TMAS @ ''TMAS'' # drop i expected_without_TMAS)"
proof -
  have "set (take i expected_without_TMAS @ ''TMAS'' # drop i expected_without_TMAS)
        = insert ''TMAS'' (set (take i expected_without_TMAS) \<union> set (drop i expected_without_TMAS))"
    by simp
  also have "\<dots> = insert ''TMAS'' (set expected_without_TMAS)"
    by (simp only: set_take_drop)
  finally show ?thesis
    by (auto simp: expected_without_TMAS_def)
qed

lemma optional_subset_expected: "set optional_services \<subseteq> set expected_services"
  by (simp add: optional_services_def expected_services_def)

lemma movable_subset_expected: "set movable_services \<subseteq> set expected_services"
  by (simp add: movable_services_def expected_services_def)

lemma all_present:
  assumes "set expected_services \<subseteq> set reported"
  shows "expected_present reported = expected_services"
    and "movable_present reported = movable_services"
proof -
  have "\<And>s. \<not> optional_not_present reported s \<or> s \<notin> set expected_services"
    using assms by (auto simp: optional_not_present_def)
  then show "expected_present reported = expected_services"
    unfolding expected_present_def by (metis (mono_tags, lifting) filter_True)
  have "\<And>s. s \<in> set movable_services \<Longrightarrow> \<not> optional_not_present reported s"
    using assms movable_subset_expected by (auto simp: optional_not_present_def)
  then show "movable_present reported = movable_services"
    unfolding movable_present_def by simp
qed

lemma mset_filter_insert:
  "mset (filter P (take i xs @ y # drop i xs)) = mset (filter P [y]) + mset (filter P xs)"
proof -
  have "mset (filter P (take i xs @ y # drop i xs))
        = mset (filter P [y]) + mset (filter P (take i xs) @ filter P (drop i xs))"
    by simp
  then show ?thesis by (simp only: filter_take_drop)
qed

lemma filter_insert_dropped:
  assumes "\<not> P y"
  shows "filter P (take i xs @ y # drop i xs) = filter P xs"
proof -
  have "filter P (take i xs @ y # drop i xs) = filter P (take i xs) @ filter P (drop i xs)"
    using assms by simp
  then show ?thesis by (simp only: filter_take_drop)
qed

text \<open>
  Claim C1. Whenever the prompt's UUID list translates to the reference sequence with the
  movable and optional service TMAS put in at any position \<open>i\<close>, both assertions hold
  and the handler returns \<open>"OK"\<close>.
\<close>

theorem tmas_any_position:
  assumes "reported_services uuids
             = Inr (take i expected_without_TMAS @ ''TMAS'' # drop i expected_without_TMAS)"
  shows "TSC_SDP_mmi_verify_browsable_services uuids = Inr ''OK''"
proof -
  let ?R = "take i expected_without_TMAS @ ''TMAS'' # drop i expected_without_TMAS"
  have sub: "set expected_services \<subseteq> set ?R"
    by (rule set_insert_TMAS)
  have mov: "movable_present ?R = movable_services"
    and exp: "expected_present ?R = expected_services"
    using all_present [OF sub] by simp_all
  have m1: "mset (filter (\<lambda>x. x \<in> set movable_services) expected_without_TMAS)
            = {#''Message Access Server''#}"
    by (simp add: expected_without_TMAS_def expected_services_def movable_services_def)
  have "mset (filter (\<lambda>x. x \<in> set movable_services) ?R) = mset movable_services"
    by (simp only: mset_filter_insert m1) (simp add: movable_services_def)
  then have a: "\<not> movable_differ ?R"
    by (simp only: movable_differ_def mov)
  have notin: "\<not> (''TMAS'' \<notin> set movable_services)"
    by (simp add: movable_services_def)
  have "filter (\<lambda>x. x \<notin> set movable_services) ?R
        = filter (\<lambda>x. x \<notin> set movable_services) expected_without_TMAS"
    using notin by (intro filter_insert_dropped)
  also have "\<dots> = filter (\<lambda>x. x \<notin> set movable_services) expected_services"
    by (simp add: expected_without_TMAS_def expected_services_def movable_services_def)
  finally have b: "\<not> fixed_order_differ ?R"
    by (simp only: fixed_order_differ_def mov exp) simp
  show ?thesis
    by (simp only: verify_cases [OF assms] a b if_False)
qed

theorem tmas_any_position_witness:
  "reported_services uuids_TMAS_first
     = Inr (take 0 expected_without_TMAS @ ''TMAS'' # drop 0 expected_without_TMAS)
   \<and> TSC_SDP_mmi_verify_browsable_services uuids_TMAS_first = Inr ''OK''"
proof -
  have h: "reported_services uuids_TMAS_first
             = Inr (take 0 expected_without_TMAS @ ''TMAS'' # drop 0 expected_without_TMAS)"
    by code_simp
  show ?thesis by (rule conjI [OF h tmas_any_position [OF h]])
qed

subsection \<open>Failure of the comparison\<close>

lemma map_raising_translate:
  assumes "\<forall>u \<in> set us. py_int 16 u \<noteq> None"
  shows "map_raising translate_uuid us
         = Inr (map (\<lambda>uuid. case UUID_TO_SERVICE_NAME (the (py_int 16 uuid)) of
                    Some name \<Rightarrow> name | None \<Rightarrow> uuid) us)"
  using assms
proof (induction us)
  case Nil
  then show ?case by simp
next
  case (Cons u us)
  then obtain k where "py_int 16 u = Some k" by auto
  with Cons show ?case by (simp add: translate_uuid_def)
qed

lemma reported_services_spec:
  assumes "\<forall>u \<in> set (split_comma_space uuids). py_int 16 u \<noteq> None"
  shows "reported_services uuids = Inr (spec_translate uuids)"
  unfolding reported_services_def spec_translate_def
  by (rule map_raising_translate [OF assms])

lemma fold_removeAll: "fold removeAll xs ys = filter (\<lambda>y. y \<notin> set xs) ys"
proof (induction xs arbitrary: ys)
  case Nil
  then show ?case by simp
next
  case (Cons x xs)
  have "fold removeAll (x # xs) ys = fold removeAll xs (removeAll x ys)"
    by simp
  also have "\<dots> = filter (\<lambda>y. y \<notin> set xs) (removeAll x ys)"
    by (rule Cons.IH)
  also have "\<dots> = filter (\<lambda>y. y \<notin> set (x # xs)) ys"
    by (induction ys) auto
  finally show ?case .
qed

lemma in_absent_optional:
  "s \<in> set (absent_optional reported) \<longleftrightarrow> optional_not_present reported s"
  by (auto simp: absent_optional_def optional_not_present_def)

lemma spec_expected_present: "spec_expected reported = expected_present reported"
  by (simp add: spec_expected_def expected_present_def fold_removeAll in_absent_optional)

lemma spec_movable_present: "spec_movable reported = movable_present reported"
  by (simp add: spec_movable_def movable_present_def fold_removeAll in_absent_optional)

lemma reported_movable_kept:
  "filter (\<lambda>x. x \<in> set (movable_present reported)) reported
   = filter (\<lambda>x. x \<in> set movable_services) reported"
  by (rule filter_cong) (auto simp: movable_present_def optional_not_present_def)

lemma reported_fixed_kept:
  "filter (\<lambda>x. x \<notin> set (movable_present reported)) reported
   = filter (\<lambda>x. x \<notin> set movable_services) reported"
  by (rule filter_cong) (auto simp: movable_present_def optional_not_present_def)

lemma expected_fixed_kept:
  "filter (\<lambda>x. x \<notin> set (movable_present reported)) (expected_present reported)
   = filter (\<lambda>x. x \<notin> set movable_services) (expected_present reported)"
  by (rule filter_cong) (auto simp: movable_present_def expected_present_def)

lemma spec_movable_differ_iff: "spec_movable_differ reported \<longleftrightarrow> movable_differ reported"
  by (simp only: spec_movable_differ_def movable_differ_def spec_movable_present
      reported_movable_kept)

lemma spec_fixed_order_differ_iff:
  "spec_fixed_order_differ reported \<longleftrightarrow> fixed_order_differ reported"
  by (simp only: spec_fixed_order_differ_def fixed_order_differ_def spec_expected_present
      reported_fixed_kept expected_fixed_kept)

text \<open>
  Claim C3. For a prompt all of whose UUIDs are numbers, the reported list is the
  translation of the UUIDs by the table (an unknown UUID stands for itself). With the
  optional services that are not reported removed from the reference sequence and from
  the movable services, the handler raises an assertion error exactly when the movable
  services reported differ as a multiset from the movable services expected, or the
  other services reported differ as a sequence from the other services expected;
  otherwise it returns \<open>"OK"\<close>.
\<close>

theorem browsable_fails_iff:
  assumes "\<forall>u \<in> set (split_comma_space uuids). py_int 16 u \<noteq> None"
  shows "reported_services uuids = Inr (spec_translate uuids)
       \<and> ((\<exists>m. TSC_SDP_mmi_verify_browsable_services uuids = Inl (AssertionError m))
            \<longleftrightarrow> spec_movable_differ (spec_translate uuids)
                \<or> spec_fixed_order_differ (spec_translate uuids))
       \<and> (TSC_SDP_mmi_verify_browsable_services uuids = Inr ''OK''
            \<longleftrightarrow> \<not> (spec_movable_differ (spec_translate uuids)
                    \<or> spec_fixed_order_differ (spec_translate uuids)))"
  by (simp add: verify_cases [OF reported_services_spec [OF assms]]
      reported_services_spec [OF assms] spec_movable_differ_iff spec_fixed_order_differ_iff)

theorem browsable_fails_iff_witness:
  "list_all (\<lambda>u. py_int 16 u \<noteq> None) (split_comma_space uuids_without_TMAS)
   \<and> reported_services uuids_without_TMAS = Inr (removeAll ''TMAS'' expected_services)
   \<and> spec_expected (spec_translate uuids_without_TMAS) = removeAll ''TMAS'' expected_services
   \<and> TSC_SDP_mmi_verify_browsable_services uuids_without_TMAS = Inr ''OK''
   \<and> spec_movable_differ (spec_translate uuids_without_TMAS) = False
   \<and> spec_fixed_order_differ (spec_translate uuids_without_TMAS) = False
   \<and> list_all (\<lambda>u. py_int 16 u \<noteq> None) (split_comma_space uuids_no_MAS)
   \<and> is_count_mismatch (TSC_SDP_mmi_verify_browsable_services uuids_no_MAS)
   \<and> (spec_movable_differ (spec_translate uuids_no_MAS)
        \<or> spec_fixed_order_differ (spec_translate uuids_no_MAS))
   \<and> list_all (\<lambda>u. py_int 16 u \<noteq> None) (split_comma_space uuids_swapped)
   \<and> is_sequence_mismatch (TSC_SDP_mmi_verify_browsable_services uuids_swapped)
   \<and> (spec_movable_differ (spec_translate uuids_swapped)
        \<or> spec_fixed_order_differ (spec_translate uuids_swapped))"
proof -
  have a1: "list_all (\<lambda>u. py_int 16 u \<noteq> None) (split_comma_space uuids_without_TMAS)"
    by code_simp
  have a2: "list_all (\<lambda>u. py_int 16 u \<noteq> None) (split_comma_space uuids_no_MAS)"
    by code_simp
  have a3: "list_all (\<lambda>u. py_int 16 u \<noteq> None) (split_comma_space uuids_swapped)"
    by code_simp
  have r1: "reported_services uuids_without_TMAS = Inr (removeAll ''TMAS'' expected_services)"
    by code_simp
  have e1: "spec_expected (spec_translate uuids_without_TMAS) = removeAll ''TMAS'' expected_services"
    by code_simp
  have c2: "is_count_mismatch (TSC_SDP_mmi_verify_browsable_services uuids_no_MAS)"
    by code_simp
  have c3: "is_sequence_mismatch (TSC_SDP_mmi_verify_browsable_services uuids_swapped)"
    by code_simp
  have ok1: "TSC_SDP_mmi_verify_browsable_services uuids_without_TMAS = Inr ''OK''"
    by code_simp
  note t1 = browsable_fails_iff [of uuids_without_TMAS, unfolded list_all_iff [symmetric], OF a1]
  note t2 = browsable_fails_iff [of uuids_no_MAS, unfolded list_all_iff [symmetric], OF a2]
  note t3 = browsable_fails_iff [of uuids_swapped, unfolded list_all_iff [symmetric], OF a3]
  from t1 ok1 have d1: "spec_movable_differ (spec_translate uuids_without_TMAS) = False"
    and f1: "spec_fixed_order_differ (spec_translate uuids_without_TMAS) = False"
    by blast+
  from c2 have "\<exists>m. TSC_SDP_mmi_verify_browsable_services uuids_no_MAS = Inl (AssertionError m)"
    by (auto simp: is_count_mismatch_def split: sum.splits error.splits assert_msg.splits)
  with t2 have d2: "spec_movable_differ (spec_translate uuids_no_MAS)
        \<or> spec_fixed_order_differ (spec_translate uuids_no_MAS)"
    by blast
  from c3 have "\<exists>m. TSC_SDP_mmi_verify_browsable_services uuids_swapped = Inl (AssertionError m)"
    by (auto simp: is_sequence_mismatch_def split: sum.splits error.splits assert_msg.splits)
  with t3 have d3: "spec_movable_differ (spec_translate uuids_swapped)
        \<or> spec_fixed_order_differ (spec_translate uuids_swapped)"
    by blast
  from a1 r1 e1 ok1 d1 f1 a2 c2 d2 a3 c3 d3 show ?thesis by blast
qed

subsection \<open>Optional services\<close>










section \<open>Properties of the pairing responder\<close>

subsection \<open>Decimal passkeys\<close>





lemma received_event_tests:
  "just_works (received_event n method)" "passkey_entry_request (received_event n method)"
  by (simp_all add: received_event_def)

lemma two_passkeys_fields:
  "passkey_queue two_passkeys = [''111111'', ''222222'']" "answers two_passkeys = []"
  "debug_out two_passkeys = []"
  by (simp_all add: two_passkeys_def MMI_DISPLAY_PASSKEY_CODE_def sm_initial_def)

subsection \<open>Events answered by confirmation\<close>

text \<open>
  Claim C4 does not hold of the code. The test \<open>event.passkey_entry_request\<close> is true
  of every event the remote stack delivers, so a just-works event is answered with
  \<open>confirm=True\<close> and then the passkey queue is read all the same: with two passkeys
  waiting, the first is taken off the queue and sent as a passkey for the just-works
  event.
\<close>

theorem just_works_event_reads_queue:
  "task two_passkeys [(received_event 2 Just_works, None)]
     = Inr (two_passkeys
             \<lparr>passkey_queue := [''222222''],
              answers := [Answer_confirm (received_event 2 Just_works) True,
                          Answer_passkey (received_event 2 Just_works) 111111]\<rparr>)"
proof -
  have p: "py_int 10 ''111111'' = Some 111111"
    by code_simp
  show ?thesis
    using p two_passkeys_fields received_event_tests [of 2 Just_works]
    by (simp add: handle_pairing_event_def queue_get_def Let_def)
qed

subsection \<open>Passkey entry\<close>




subsection \<open>No passkey in time\<close>

text \<open>
  Claim C6 does not hold of the code. The test \<open>event.just_works\<close> is true of every
  event the remote stack delivers, so a passkey-entry-request event has already been
  answered with \<open>confirm=True\<close> when the wait for its passkey times out. The rest is
  as claimed: the timeout is written to the debug output, no exception leaves the task,
  and the loop goes on.
\<close>

theorem timed_out_request_was_confirmed:
  "task sm_initial [(received_event 1 Passkey_entry_request, None)]
     = Inr (sm_initial
             \<lparr>answers := [Answer_confirm (received_event 1 Passkey_entry_request) True],
              debug_out := [''No passkey provided within 15 seconds'']\<rparr>)"
  using received_event_tests [of 1 Passkey_entry_request]
  by (simp add: handle_pairing_event_def queue_get_def sm_initial_def Let_def)

section \<open>Properties of the L2CAP handlers\<close>

text \<open>
  Claim C7. The confirming prompt of a test is compared with the payload that the send
  handler of that test transmits (\<open>LE_DATA_PACKET1\<close> for \<open>L2CAP/COS/CFC/BV-02-C\<close>,
  \<open>LE_DATA_PACKET_LARGE\<close> for any other test): the confirm handler returns \<open>"OK"\<close>
  exactly when the reported text is the upper-case hexadecimal form of that payload, and
  otherwise raises an exception whose message names the reported and the expected text.
\<close>

theorem confirm_le_data_matches_sent:
  assumes "channel sender = Some ch"
  shows "\<exists>payload. last_sent (snd (sender_of_test test None sender)) = Some payload
       \<and> fst (sender_of_test test None sender) = Inr ''OK''
       \<and> fst (MMI_UPPER_TESTER_CONFIRM_LE_DATA sent_data test self)
           = (if sent_data = upper (bytes_hex payload) then Inr ''OK''
              else Inl (Exception (''data not match, sent_data:'' @ sent_data @ '' and ''
                                    @ upper (bytes_hex payload))))"
  using assms
  by (simp add: sender_of_test_def MMI_UPPER_TESTER_SEND_LE_DATA_PACKET1_def
      MMI_UPPER_TESTER_SEND_LE_DATA_PACKET_LARGE_def MMI_UPPER_TESTER_CONFIRM_LE_DATA_def
      last_sent_def Let_def)

theorem confirm_le_data_matches_sent_witness:
  "channel with_channel = Some 5
   \<and> last_sent (snd (sender_of_test ''L2CAP/COS/CFC/BV-02-C'' None with_channel))
       = Some (encode_utf8 LE_DATA_PACKET1)
   \<and> upper (bytes_hex (encode_utf8 LE_DATA_PACKET1)) = ''646174613A204C455F5041434B455431''
   \<and> fst (MMI_UPPER_TESTER_CONFIRM_LE_DATA ''646174613A204C455F5041434B455431''
            ''L2CAP/COS/CFC/BV-02-C'' with_channel) = Inr ''OK''"
proof -
  have c: "channel with_channel = Some 5"
    by (simp add: with_channel_def l2cap_initial_def)
  have l: "last_sent (snd (sender_of_test ''L2CAP/COS/CFC/BV-02-C'' None with_channel))
             = Some (encode_utf8 LE_DATA_PACKET1)"
    using c by (simp add: sender_of_test_def MMI_UPPER_TESTER_SEND_LE_DATA_PACKET1_def
        last_sent_def)
  have h: "upper (bytes_hex (encode_utf8 LE_DATA_PACKET1)) = ''646174613A204C455F5041434B455431''"
    by code_simp
  from confirm_le_data_matches_sent [OF c, of "''L2CAP/COS/CFC/BV-02-C''"
      "''646174613A204C455F5041434B455431''" with_channel] l h
  have "fst (MMI_UPPER_TESTER_CONFIRM_LE_DATA ''646174613A204C455F5041434B455431''
               ''L2CAP/COS/CFC/BV-02-C'' with_channel) = Inr ''OK''"
    by auto
  with c l h show ?thesis by blast
qed

text \<open>
  Claim C8. On the first call (no connection yet, the advertisement yields one), when
  \<open>Connect\<close> raises or answers without a channel: for a test of
  \<open>tests_target_to_fail\<close> the handler stores \<open>'OK'\<close> for the test in the status map and
  returns \<open>"OK"\<close>; for any other test the exception leaves the handler and the status
  map is as before.
\<close>

theorem connect_failure_allowlist:
  assumes "connection self = None" and "connect_failure connect_result = Some e"
  shows "(test \<in> set tests_target_to_fail \<longrightarrow>
            fst (MMI_IUT_SEND_LE_CREDIT_BASED_CONNECTION_REQUEST test (Inr conn) connect_result self)
              = Inr ''OK''
          \<and> test_status_map
               (snd (MMI_IUT_SEND_LE_CREDIT_BASED_CONNECTION_REQUEST test (Inr conn) connect_result self))
              = (test_status_map self)(test \<mapsto> ''OK''))
       \<and> (test \<notin> set tests_target_to_fail \<longrightarrow>
            fst (MMI_IUT_SEND_LE_CREDIT_BASED_CONNECTION_REQUEST test (Inr conn) connect_result self)
              = Inl e
          \<and> test_status_map
               (snd (MMI_IUT_SEND_LE_CREDIT_BASED_CONNECTION_REQUEST test (Inr conn) connect_result self))
              = test_status_map self)"
  using assms
  by (auto simp: MMI_IUT_SEND_LE_CREDIT_BASED_CONNECTION_REQUEST_def connect_failure_def Let_def
      split: sum.splits connect_response.splits)

theorem connect_failure_allowlist_witness:
  "connection l2cap_initial = None
   \<and> connect_failure (Inr (Response_error ''2'')) = Some (Exception ''2'')
   \<and> ''L2CAP/LE/CFC/BV-04-C'' \<in> set tests_target_to_fail
   \<and> fst (MMI_IUT_SEND_LE_CREDIT_BASED_CONNECTION_REQUEST ''L2CAP/LE/CFC/BV-04-C''
            (Inr 1) (Inr (Response_error ''2'')) l2cap_initial) = Inr ''OK''
   \<and> test_status_map after_rejected_request ''L2CAP/LE/CFC/BV-04-C'' = Some ''OK''
   \<and> ''L2CAP/LE/CFC/BV-03-C'' \<notin> set tests_target_to_fail
   \<and> fst (MMI_IUT_SEND_LE_CREDIT_BASED_CONNECTION_REQUEST ''L2CAP/LE/CFC/BV-03-C''
            (Inr 1) (Inr (Response_error ''2'')) l2cap_initial) = Inl (Exception ''2'')"
proof -
  have c: "connection l2cap_initial = None"
    by (simp add: l2cap_initial_def)
  have f: "connect_failure (Inr (Response_error ''2'')) = Some (Exception ''2'')"
    by (simp add: connect_failure_def)
  have i: "''L2CAP/LE/CFC/BV-04-C'' \<in> set tests_target_to_fail"
    by (simp add: tests_target_to_fail_def)
  have n: "''L2CAP/LE/CFC/BV-03-C'' \<notin> set tests_target_to_fail"
    by (simp add: tests_target_to_fail_def)
  note a = connect_failure_allowlist [OF c f, of "''L2CAP/LE/CFC/BV-04-C''" 1]
  note b = connect_failure_allowlist [OF c f, of "''L2CAP/LE/CFC/BV-03-C''" 1]
  from a i have a1: "fst (MMI_IUT_SEND_LE_CREDIT_BASED_CONNECTION_REQUEST ''L2CAP/LE/CFC/BV-04-C''
            (Inr 1) (Inr (Response_error ''2'')) l2cap_initial) = Inr ''OK''"
    and a2: "test_status_map after_rejected_request
               = (test_status_map l2cap_initial)(''L2CAP/LE/CFC/BV-04-C'' \<mapsto> ''OK'')"
    unfolding after_rejected_request_def by blast+
  from a2 have a3: "test_status_map after_rejected_request ''L2CAP/LE/CFC/BV-04-C'' = Some ''OK''"
    by simp
  from b n have b1: "fst (MMI_IUT_SEND_LE_CREDIT_BASED_CONNECTION_REQUEST ''L2CAP/LE/CFC/BV-03-C''
            (Inr 1) (Inr (Response_error ''2'')) l2cap_initial) = Inl (Exception ''2'')"
    by blast
  from c f i a1 a3 n b1 show ?thesis by blast
qed

lemmas status_handler_defs =
  MMI_UPPER_TESTER_CONFIRM_RECEIVE_COMMAND_NOT_UNDERSTAOOD_def
  MMI_UPPER_TESTER_CONFIRM_RECEIVE_REJECT_PSM_def
  MMI_UPPER_TESTER_CONFIRM_RECEIVE_REJECT_AUTHENTICATION_def
  MMI_IUT_SEND_INSUFFICIENT_AUTHENTICATION_ON_LE_def
  MMI_UPPER_TESTER_CONFIRM_RECEIVE_REJECT_AUTHORIZATION_def
  MMI_UPPER_TESTER_CONFIRM_RECEIVE_REJECT_ENCRYPTION_KEY_SIZE_def
  MMI_UPPER_TESTER_CONFIRM_RECEIVE_REJECT_INVALID_SOURCE_CID_def
  MMI_UPPER_TESTER_CONFIRM_RECEIVE_REJECT_SOURCE_CID_ALREADY_ALLOCATED_def
  MMI_UPPER_TESTER_CONFIRM_RECEIVE_REJECT_UNACCEPTABLE_PARAMETERS_def
  MMI_UPPER_TESTER_CONFIRM_RECEIVE_REJECT_RESOURCES_def
  mmi_135_def

text \<open>
  Claim C9. Each handler that reads the status map returns \<open>"OK"\<close> exactly when the map
  holds \<open>"OK"\<close> for the current test; it raises when the entry is anything else, and
  raises a key error when the map has no entry for the test.
\<close>

theorem status_map_handlers_ok_iff:
  "\<forall>h \<in> set status_map_handlers.
      (fst (h test self) = Inr ''OK'' \<longleftrightarrow> test_status_map self test = Some ''OK'')
    \<and> (\<forall>status. test_status_map self test = Some status \<and> status \<noteq> ''OK''
          \<longrightarrow> fst (h test self) = Inl (Exception ''Unexpected RECEIVE_COMMAND''))
    \<and> (test_status_map self test = None \<longrightarrow> fst (h test self) = Inl (KeyError test))"
  unfolding status_map_handlers_def
  by (simp add: status_handler_defs split: option.splits)

theorem status_map_handlers_ok_iff_witness:
  "test_status_map after_rejected_request ''L2CAP/LE/CFC/BV-04-C'' = Some ''OK''
   \<and> fst (MMI_UPPER_TESTER_CONFIRM_RECEIVE_REJECT_PSM ''L2CAP/LE/CFC/BV-04-C''
            after_rejected_request) = Inr ''OK''
   \<and> test_status_map l2cap_initial ''L2CAP/LE/CFC/BV-04-C'' = None
   \<and> fst (MMI_UPPER_TESTER_CONFIRM_RECEIVE_REJECT_PSM ''L2CAP/LE/CFC/BV-04-C'' l2cap_initial)
       = Inl (KeyError ''L2CAP/LE/CFC/BV-04-C'')"
proof -
  have m: "MMI_UPPER_TESTER_CONFIRM_RECEIVE_REJECT_PSM \<in> set status_map_handlers"
    by (simp add: status_map_handlers_def)
  have s: "test_status_map after_rejected_request ''L2CAP/LE/CFC/BV-04-C'' = Some ''OK''"
    by (simp add: after_rejected_request_def MMI_IUT_SEND_LE_CREDIT_BASED_CONNECTION_REQUEST_def
        l2cap_initial_def tests_target_to_fail_def Let_def)
  have e: "test_status_map l2cap_initial ''L2CAP/LE/CFC/BV-04-C'' = None"
    by (simp add: l2cap_initial_def)
  from status_map_handlers_ok_iff [of "''L2CAP/LE/CFC/BV-04-C''" after_rejected_request] m s
  have a: "fst (MMI_UPPER_TESTER_CONFIRM_RECEIVE_REJECT_PSM ''L2CAP/LE/CFC/BV-04-C''
            after_rejected_request) = Inr ''OK''"
    by blast
  from status_map_handlers_ok_iff [of "''L2CAP/LE/CFC/BV-04-C''" l2cap_initial] m e
  have b: "fst (MMI_UPPER_TESTER_CONFIRM_RECEIVE_REJECT_PSM ''L2CAP/LE/CFC/BV-04-C'' l2cap_initial)
       = Inl (KeyError ''L2CAP/LE/CFC/BV-04-C'')"
    by blast
  from s a e b show ?thesis by blast
qed

text \<open>
  Claim C10. Called while a connection is already set, the connection request returns
  \<open>"OK"\<close> at once for test \<open>L2CAP/LE/CFC/BV-02-C\<close>, with no remote call and the
  proxy unchanged; for any other test it fails the assertion that the connection is
  \<open>None\<close> on the first call.
\<close>

theorem second_call_with_connection:
  assumes "connection self = Some conn"
  shows "MMI_IUT_SEND_LE_CREDIT_BASED_CONNECTION_REQUEST test advertised connect_result self
         = (if test = ''L2CAP/LE/CFC/BV-02-C'' then (Inr ''OK'', self)
            else (Inl (AssertionError (Msg ''the connection should be None for the first call'')),
                  self))"
  using assms by (simp add: MMI_IUT_SEND_LE_CREDIT_BASED_CONNECTION_REQUEST_def)

theorem second_call_with_connection_witness:
  "connection with_channel = Some 1
   \<and> MMI_IUT_SEND_LE_CREDIT_BASED_CONNECTION_REQUEST ''L2CAP/LE/CFC/BV-02-C''
        (Inr 2) (Inr (Response_channel 9)) with_channel = (Inr ''OK'', with_channel)
   \<and> MMI_IUT_SEND_LE_CREDIT_BASED_CONNECTION_REQUEST ''L2CAP/LE/CFC/BV-04-C''
        (Inr 2) (Inr (Response_channel 9)) with_channel
       = (Inl (AssertionError (Msg ''the connection should be None for the first call'')),
          with_channel)"
proof -
  have c: "connection with_channel = Some 1"
    by (simp add: with_channel_def l2cap_initial_def)
  from second_call_with_connection [OF c, of "''L2CAP/LE/CFC/BV-02-C''" "Inr 2"
      "Inr (Response_channel 9)"]
    second_call_with_connection [OF c, of "''L2CAP/LE/CFC/BV-04-C''" "Inr 2"
      "Inr (Response_channel 9)"] c
  show ?thesis by simp
qed

end
